theory Spec2Isabelle
  imports Complex_Main
begin

section \<open>MCP tool-server configuration of dspy-forge\<close>

text \<open>
  The development embeds three files of the user interface:
  \<^item> \<^verbatim>\<open>ui/src/contexts/LMConfigContext.tsx\<close>: the global configuration (language model
    and MCP servers), kept in React state and mirrored into \<^verbatim>\<open>localStorage\<close>;
  \<^item> \<^verbatim>\<open>ui/src/components/LMConfigModal.tsx\<close>: the editor of the global server list;
  \<^item> \<^verbatim>\<open>ui/src/components/nodes/ModuleNode.tsx\<close>: the editor of one workflow node, with
    its own server list and the snapshot of the global one taken on save.

  React state is modelled by explicit state passing: every handler takes the state it
  was rendered with and returns the next one. A functional update
  \<^verbatim>\<open>setX(prev => ...)\<close> and a direct \<^verbatim>\<open>setX(v)\<close> are the same here, since each handler
  runs against the latest render. All updates of the source build new arrays and
  objects (\<^verbatim>\<open>filter\<close>, \<^verbatim>\<open>map\<close>, spread); nothing is mutated in place, so values
  stand for references.

  Several objects of the source share field names (\<^verbatim>\<open>mcpServers\<close>,
  \<^verbatim>\<open>selectedTools\<close>, \<^verbatim>\<open>availableTools\<close>, ...). The interfaces of
  \<^verbatim>\<open>LMConfigContext.tsx\<close> keep the plain names; elsewhere a shared name carries a
  prefix: \<open>p_\<close> (provider state), \<open>d_\<close> (saved node data), \<open>n_\<close> (state of the
  node component), \<open>m_\<close> (state of the modal).
\<close>

subsection \<open>Strings\<close>

text \<open>
  A JavaScript string is a sequence of UTF-16 code units; \<^typ>\<open>string\<close> has the code
  units below 256. \<^verbatim>\<open>String.prototype.trim\<close> removes white space and line terminators
  from both ends; in this range they are TAB, LF, VT, FF, CR, SP and NBSP.
\<close>

definition isWhiteSpace :: "char \<Rightarrow> bool" where
  "isWhiteSpace c =
     (c = CHR 0x09 \<or> c = CHR 0x0A \<or> c = CHR 0x0B \<or> c = CHR 0x0C \<or> c = CHR 0x0D \<or>
      c = CHR 0x20 \<or> c = CHR 0xA0)"

definition trim :: "string \<Rightarrow> string" where
  "trim s = rev (dropWhile isWhiteSpace (rev (dropWhile isWhiteSpace s)))"

subsection \<open>JSON values and the stored blob\<close>

text \<open>
  The value tree that \<^verbatim>\<open>JSON.parse\<close> returns and \<^verbatim>\<open>JSON.stringify\<close> serialises.
  An object is its list of members (\<^verbatim>\<open>JSON.parse\<close> leaves one member per key).
\<close>

datatype json =
    JNull
  | JBool bool
  | JNum real
  | JStr string
  | JArr "json list"
  | JObj "(string \<times> json) list"

text \<open>
  What \<^verbatim>\<open>localStorage.getItem(GLOBAL_CONFIG_STORAGE_KEY)\<close> holds. The program tests the
  string for truthiness and hands it to \<^verbatim>\<open>JSON.parse\<close>, nothing else, so a stored
  string is represented by what \<^verbatim>\<open>JSON.parse\<close> makes of it: \<open>NotJSON\<close> when it throws
  a \<^verbatim>\<open>SyntaxError\<close>, \<open>JSON v\<close> when it returns \<open>v\<close>. \<open>NoItem\<close> is \<^verbatim>\<open>null\<close> (no
  item under the key) and \<open>EmptyString\<close> the stored string \<^verbatim>\<open>""\<close>; both are falsy.
  \<^verbatim>\<open>JSON.parse(JSON.stringify(v))\<close> rebuilds \<open>v\<close> for a tree of objects, arrays,
  strings and \<^verbatim>\<open>null\<close>, so \<^verbatim>\<open>setItem(key, JSON.stringify(v))\<close> stores \<open>JSON v\<close>;
  the write is taken to succeed.
\<close>

datatype blob = NoItem | EmptyString | NotJSON | JSON json

datatype exn = SyntaxError | TypeError

text \<open>JavaScript truthiness of a parsed value, and \<^verbatim>\<open>x || d\<close> where \<open>None\<close> is \<^verbatim>\<open>undefined\<close>.\<close>

fun truthy :: "json \<Rightarrow> bool" where
  "truthy JNull = False"
| "truthy (JBool b) = b"
| "truthy (JNum x) = (x \<noteq> 0)"
| "truthy (JStr s) = (s \<noteq> [])"
| "truthy (JArr xs) = True"
| "truthy (JObj kvs) = True"

fun or_default :: "json option \<Rightarrow> json \<Rightarrow> json" where
  "or_default None d = d"
| "or_default (Some v) d = (if truthy v then v else d)"

text \<open>
  Property access \<^verbatim>\<open>config.name\<close> for the two names the program reads: a
  \<^verbatim>\<open>TypeError\<close> on \<^verbatim>\<open>null\<close>, the member of an object, \<^verbatim>\<open>undefined\<close> on anything else
  (numbers, booleans, strings and arrays have no property of these names).
\<close>

fun property :: "json \<Rightarrow> string \<Rightarrow> exn + json option" where
  "property JNull k = Inl TypeError"
| "property (JObj kvs) k = Inr (map_of kvs k)"
| "property v k = Inr None"

subsection \<open>LMConfigContext.tsx\<close>

record LMConfig =
  provider :: string
  modelName :: string

record MCPServer =
  url :: string
  selectedTools :: "string list"

record GlobalConfig =
  lmConfig :: "LMConfig option"
  mcpServers :: "MCPServer list"

text \<open>The tree that \<^verbatim>\<open>JSON.stringify\<close> writes for a \<^verbatim>\<open>GlobalConfig\<close>.\<close>

definition LMConfig_json :: "LMConfig \<Rightarrow> json" where
  "LMConfig_json c = JObj [(''provider'', JStr (provider c)), (''modelName'', JStr (modelName c))]"

definition MCPServer_json :: "MCPServer \<Rightarrow> json" where
  "MCPServer_json s =
     JObj [(''url'', JStr (url s)), (''selectedTools'', JArr (map JStr (selectedTools s)))]"

definition lmConfig_json :: "LMConfig option \<Rightarrow> json" where
  "lmConfig_json c = (case c of None \<Rightarrow> JNull | Some l \<Rightarrow> LMConfig_json l)"

definition mcpServers_json :: "MCPServer list \<Rightarrow> json" where
  "mcpServers_json ss = JArr (map MCPServer_json ss)"

definition GlobalConfig_members :: "GlobalConfig \<Rightarrow> (string \<times> json) list" where
  "GlobalConfig_members c =
     [(''lmConfig'', lmConfig_json (lmConfig c)),
      (''mcpServers'', mcpServers_json (mcpServers c))]"

definition GlobalConfig_json :: "GlobalConfig \<Rightarrow> json" where
  "GlobalConfig_json c = JObj (GlobalConfig_members c)"

text \<open>
  The state of \<^verbatim>\<open>LMConfigProvider\<close> as the effect of its first render leaves it. The
  cast \<^verbatim>\<open>const config: GlobalConfig = JSON.parse(stored)\<close> checks nothing, so after the
  load the two state variables hold whatever JSON value was stored; \<open>raw_state\<close> is
  that pair (\<^verbatim>\<open>globalLMConfig\<close>, \<^verbatim>\<open>mcpServers\<close>).
\<close>

type_synonym raw_state = "json \<times> json"

definition initial_raw :: raw_state where
  "initial_raw = (JNull, JArr [])"

text \<open>
  The body of the \<^verbatim>\<open>try\<close> block: \<^verbatim>\<open>config.lmConfig\<close> is read first, so a
  \<^verbatim>\<open>TypeError\<close> leaves both state variables as they were.
\<close>

definition try_block :: "blob \<Rightarrow> exn + raw_state" where
  "try_block stored =
     (case stored of
        JSON config \<Rightarrow>
          (case property config ''lmConfig'' of
             Inl e \<Rightarrow> Inl e
           | Inr l \<Rightarrow>
               (case property config ''mcpServers'' of
                  Inl e \<Rightarrow> Inl e
                | Inr m \<Rightarrow> Inr (or_default l JNull, or_default m (JArr []))))
      | _ \<Rightarrow> Inl SyntaxError)"

text \<open>
  The effect itself: \<^verbatim>\<open>if (stored) { try { ... } catch (e) { console.error(...) } }\<close>.
  The handler catches every exception of the block and sets nothing.
\<close>

definition load :: "blob \<Rightarrow> raw_state" where
  "load stored =
     (if stored = NoItem \<or> stored = EmptyString then initial_raw
      else (case try_block stored of Inl e \<Rightarrow> initial_raw | Inr st \<Rightarrow> st))"

text \<open>
  Reading a raw state at the declared types \<^verbatim>\<open>LMConfig | null\<close> and \<^verbatim>\<open>MCPServer[]\<close>;
  \<open>None\<close> when the value does not have the type. Members beyond the declared ones
  are ignored.
\<close>

fun as_string :: "json \<Rightarrow> string option" where
  "as_string (JStr s) = Some s"
| "as_string v = None"

fun as_strings :: "json list \<Rightarrow> string list option" where
  "as_strings [] = Some []"
| "as_strings (v # vs) =
     (case as_string v of
        None \<Rightarrow> None
      | Some s \<Rightarrow> (case as_strings vs of None \<Rightarrow> None | Some ss \<Rightarrow> Some (s # ss)))"

fun as_LMConfig :: "json \<Rightarrow> LMConfig option option" where
  "as_LMConfig JNull = Some None"
| "as_LMConfig (JObj kvs) =
     (case (map_of kvs ''provider'', map_of kvs ''modelName'') of
        (Some (JStr p), Some (JStr m)) \<Rightarrow> Some (Some \<lparr>provider = p, modelName = m\<rparr>)
      | _ \<Rightarrow> None)"
| "as_LMConfig v = None"

fun as_MCPServer :: "json \<Rightarrow> MCPServer option" where
  "as_MCPServer (JObj kvs) =
     (case (map_of kvs ''url'', map_of kvs ''selectedTools'') of
        (Some (JStr u), Some (JArr ts)) \<Rightarrow>
          (case as_strings ts of
             None \<Rightarrow> None
           | Some names \<Rightarrow> Some \<lparr>url = u, selectedTools = names\<rparr>)
      | _ \<Rightarrow> None)"
| "as_MCPServer v = None"

fun as_MCPServers :: "json list \<Rightarrow> MCPServer list option" where
  "as_MCPServers [] = Some []"
| "as_MCPServers (v # vs) =
     (case as_MCPServer v of
        None \<Rightarrow> None
      | Some s \<Rightarrow> (case as_MCPServers vs of None \<Rightarrow> None | Some ss \<Rightarrow> Some (s # ss)))"

definition as_GlobalConfig :: "raw_state \<Rightarrow> GlobalConfig option" where
  "as_GlobalConfig st =
     (case (as_LMConfig (fst st), snd st) of
        (Some l, JArr vs) \<Rightarrow>
          (case as_MCPServers vs of
             None \<Rightarrow> None
           | Some ss \<Rightarrow> Some \<lparr>lmConfig = l, mcpServers = ss\<rparr>)
      | _ \<Rightarrow> None)"



text \<open>
  The provider's state from then on, at its declared types, with the item of
  \<^verbatim>\<open>localStorage\<close> under \<^verbatim>\<open>GLOBAL_CONFIG_STORAGE_KEY\<close>.
\<close>

record provider_state =
  globalLMConfig :: "LMConfig option"
  p_mcpServers :: "MCPServer list"
  localStorage :: blob

definition saveGlobalConfig :: "LMConfig option \<Rightarrow> MCPServer list \<Rightarrow> blob" where
  "saveGlobalConfig l servers = JSON (GlobalConfig_json \<lparr>lmConfig = l, mcpServers = servers\<rparr>)"

definition setGlobalLMConfig :: "LMConfig option \<Rightarrow> provider_state \<Rightarrow> provider_state" where
  "setGlobalLMConfig config st =
     st\<lparr>globalLMConfig := config,
        localStorage := saveGlobalConfig config (p_mcpServers st)\<rparr>"

definition setMCPServers :: "MCPServer list \<Rightarrow> provider_state \<Rightarrow> provider_state" where
  "setMCPServers servers st =
     st\<lparr>p_mcpServers := servers,
        localStorage := saveGlobalConfig (globalLMConfig st) servers\<rparr>"

text \<open>The member of the stored object under a name, when an object is stored.\<close>

definition stored_member :: "blob \<Rightarrow> string \<Rightarrow> json option" where
  "stored_member b k = (case b of JSON (JObj kvs) \<Rightarrow> map_of kvs k | _ \<Rightarrow> None)"

subsection \<open>ModuleNode.tsx: saving a node\<close>

datatype ModuleType = Predict | ChainOfThought | ReAct | BestOfN | Refine

record Tool =
  name :: string
  description :: string

text \<open>
  The fields of a node's data that \<^verbatim>\<open>handleSave\<close> writes (\<^verbatim>\<open>nodeDataToSave\<close>), and a
  node of the canvas with its \<^verbatim>\<open>id\<close>. A \<^verbatim>\<open>Record<string, T>\<close> is a map.
\<close>

record node_data =
  label :: string
  d_moduleType :: ModuleType
  d_model :: string
  d_instruction :: string
  d_parameters :: "(string \<times> json) list"
  d_mcpServers :: "string list"
  d_maxIters :: int
  d_useGlobalMcpServers :: bool
  d_selectedTools :: "string \<rightharpoonup> string list"
  globalMcpServersSnapshot :: "MCPServer list"

record rf_node =
  node_id :: string
  data :: node_data

text \<open>
  The state of the \<^verbatim>\<open>ModuleNode\<close> component. \<open>n_inflight\<close> is not a variable of the
  source: it lists the requests that \<^verbatim>\<open>fetch\<close> has sent and that have not settled
  yet, one entry per request, so that the network is part of the state.
\<close>

record node_state =
  isEditing :: bool
  nodeLabel :: string
  moduleType :: ModuleType
  model :: string
  instruction :: string
  parameters :: "(string \<times> json) list"
  n_mcpServers :: "string list"
  maxIters :: int
  useGlobalMcpServers :: bool
  n_selectedTools :: "string \<rightharpoonup> string list"
  n_availableTools :: "string \<rightharpoonup> Tool list"
  n_loadingTools :: "string \<rightharpoonup> bool"
  newMcpServer :: string
  n_inflight :: "string list"

text \<open>The component of a node without data: the defaults of its \<^verbatim>\<open>useState\<close> calls.\<close>

definition fresh_node :: node_state where
  "fresh_node =
     \<lparr>isEditing = False, nodeLabel = ''Module'', moduleType = Predict, model = [],
      instruction = [], parameters = [], n_mcpServers = [], maxIters = 5,
      useGlobalMcpServers = False, n_selectedTools = Map.empty,
      n_availableTools = Map.empty, n_loadingTools = Map.empty, newMcpServer = [],
      n_inflight = []\<rparr>"

definition nodeDataToSave :: "node_state \<Rightarrow> MCPServer list \<Rightarrow> node_data" where
  "nodeDataToSave s globalMCPServers =
     \<lparr>label = nodeLabel s,
      d_moduleType = moduleType s,
      d_model = model s,
      d_instruction = instruction s,
      d_parameters = parameters s,
      d_mcpServers = n_mcpServers s,
      d_maxIters = maxIters s,
      d_useGlobalMcpServers = useGlobalMcpServers s,
      d_selectedTools = n_selectedTools s,
      globalMcpServersSnapshot =
        (if useGlobalMcpServers s
         then map (\<lambda>g. \<lparr>url = url g, selectedTools = selectedTools g\<rparr>) globalMCPServers
         else [])\<rparr>"

text \<open>
  \<^verbatim>\<open>handleSave\<close> of the node \<open>i\<close>, rendered with the global list \<open>globalMCPServers\<close>
  of the context. The spread \<^verbatim>\<open>{...node.data, ...nodeDataToSave}\<close> overwrites each of
  the ten fields. The result is the new node list and the component's state.
\<close>

definition handleSave ::
  "string \<Rightarrow> MCPServer list \<Rightarrow> node_state \<Rightarrow> rf_node list \<Rightarrow> rf_node list \<times> node_state" where
  "handleSave i globalMCPServers s nds =
     (map (\<lambda>node.
        if node_id node = i
        then node\<lparr>data :=
          (data node)\<lparr>label := label (nodeDataToSave s globalMCPServers),
            d_moduleType := d_moduleType (nodeDataToSave s globalMCPServers),
            d_model := d_model (nodeDataToSave s globalMCPServers),
            d_instruction := d_instruction (nodeDataToSave s globalMCPServers),
            d_parameters := d_parameters (nodeDataToSave s globalMCPServers),
            d_mcpServers := d_mcpServers (nodeDataToSave s globalMCPServers),
            d_maxIters := d_maxIters (nodeDataToSave s globalMCPServers),
            d_useGlobalMcpServers := d_useGlobalMcpServers (nodeDataToSave s globalMCPServers),
            d_selectedTools := d_selectedTools (nodeDataToSave s globalMCPServers),
            globalMcpServersSnapshot :=
              globalMcpServersSnapshot (nodeDataToSave s globalMCPServers)\<rparr>\<rparr>
        else node) nds,
      s\<lparr>isEditing := False\<rparr>)"

text \<open>
  The application: the provider's state and the nodes of the canvas. An event is a
  call of one of the two setters of the context, or a save of the node \<open>i\<close> whose
  component is in state \<open>s\<close>; the save reads the global list of that moment.
\<close>

record app =
  ctx :: provider_state
  nodes :: "rf_node list"

datatype event =
    SetMCPServers "MCPServer list"
  | SetGlobalLMConfig "LMConfig option"
  | SaveNode string node_state

fun step :: "app \<Rightarrow> event \<Rightarrow> app" where
  "step a (SetMCPServers servers) = a\<lparr>ctx := setMCPServers servers (ctx a)\<rparr>"
| "step a (SetGlobalLMConfig config) = a\<lparr>ctx := setGlobalLMConfig config (ctx a)\<rparr>"
| "step a (SaveNode i s) = a\<lparr>nodes := fst (handleSave i (p_mcpServers (ctx a)) s (nodes a))\<rparr>"

fun saves :: "string \<Rightarrow> event \<Rightarrow> bool" where
  "saves i (SaveNode j s) = (j = i)"
| "saves i e = False"

definition node_data_of :: "app \<Rightarrow> string \<Rightarrow> node_data option" where
  "node_data_of a i = map_option data (find (\<lambda>node. node_id node = i) (nodes a))"

subsection \<open>ModuleNode.tsx: the servers of a node\<close>

text \<open>
  How a request settles: \<open>Tools ts\<close> when \<^verbatim>\<open>response.ok\<close> holds and the body carries
  the tools \<open>ts\<close> (already mapped to name and description); \<open>NotOk\<close> when
  \<^verbatim>\<open>response.ok\<close> is false; \<open>Rejected\<close> when \<^verbatim>\<open>fetch\<close>, \<^verbatim>\<open>response.json()\<close> or
  \<^verbatim>\<open>data.tools.map\<close> throws and the \<^verbatim>\<open>catch\<close> clause logs the error.
\<close>

datatype response = Tools "Tool list" | NotOk | Rejected

text \<open>
  \<^verbatim>\<open>fetchToolsForServer\<close> up to its \<^verbatim>\<open>await fetch(...)\<close>: the flag is set and the request
  is sent, with no test of the state.
\<close>

definition fetchToolsForServer :: "string \<Rightarrow> node_state \<Rightarrow> node_state" where
  "fetchToolsForServer serverUrl s =
     s\<lparr>n_loadingTools := (n_loadingTools s)(serverUrl \<mapsto> True),
       n_inflight := n_inflight s @ [serverUrl]\<rparr>"

text \<open>
  The rest of \<^verbatim>\<open>fetchToolsForServer\<close>, when a request for \<open>serverUrl\<close> settles with
  \<open>r\<close>: the catalog and the selection of all its tools on success, the flag in
  \<^verbatim>\<open>finally\<close>. Nothing settles without a request.
\<close>

definition fetchSettled :: "string \<Rightarrow> response \<Rightarrow> node_state \<Rightarrow> node_state" where
  "fetchSettled serverUrl r s =
     (if serverUrl \<notin> set (n_inflight s) then s
      else
        (let s1 = (case r of
                     Tools tools \<Rightarrow>
                       s\<lparr>n_availableTools := (n_availableTools s)(serverUrl \<mapsto> tools),
                         n_selectedTools := (n_selectedTools s)(serverUrl \<mapsto> map name tools)\<rparr>
                   | _ \<Rightarrow> s)
         in s1\<lparr>n_loadingTools := (n_loadingTools s1)(serverUrl \<mapsto> False),
               n_inflight := remove1 serverUrl (n_inflight s1)\<rparr>))"

definition addMcpServer :: "node_state \<Rightarrow> node_state" where
  "addMcpServer s =
     (if trim (newMcpServer s) \<noteq> [] \<and> trim (newMcpServer s) \<notin> set (n_mcpServers s)
      then
        (let serverUrl = trim (newMcpServer s)
         in fetchToolsForServer serverUrl
              (s\<lparr>n_mcpServers := n_mcpServers s @ [serverUrl], newMcpServer := []\<rparr>))
      else s)"

definition removeMcpServer :: "string \<Rightarrow> node_state \<Rightarrow> node_state" where
  "removeMcpServer serverUrl s =
     s\<lparr>n_mcpServers := filter (\<lambda>x. x \<noteq> serverUrl) (n_mcpServers s),
       n_availableTools := (n_availableTools s)(serverUrl := None),
       n_selectedTools := (n_selectedTools s)(serverUrl := None)\<rparr>"

text \<open>
  The selections are an ordinary object (\<^verbatim>\<open>{}\<close>, the node's data, or the result of a
  spread), so a read \<^verbatim>\<open>prev[serverUrl]\<close> that finds no own property goes on to
  \<^verbatim>\<open>Object.prototype\<close>: under one of its property names the read gives a function (the
  prototype object itself under \<^verbatim>\<open>__proto__\<close>), under any other name \<^verbatim>\<open>undefined\<close>.
  The maps of the state hold the own properties; a write with a computed key and the
  rest pattern of \<^verbatim>\<open>removeMcpServer\<close> act on own properties only.
\<close>

definition Object_prototype :: "string list" where
  "Object_prototype =
     [''constructor'', ''hasOwnProperty'', ''isPrototypeOf'', ''propertyIsEnumerable'',
      ''toLocaleString'', ''toString'', ''valueOf'', ''__proto__'', ''__defineGetter__'',
      ''__defineSetter__'', ''__lookupGetter__'', ''__lookupSetter__'']"

datatype 'a got = Own 'a | Inherited | Undefined

definition read_property :: "(string \<rightharpoonup> 'a) \<Rightarrow> string \<Rightarrow> 'a got" where
  "read_property obj key =
     (case obj key of
        Some x \<Rightarrow> Own x
      | None \<Rightarrow> if key \<in> set Object_prototype then Inherited else Undefined)"

text \<open>
  \<^verbatim>\<open>const serverTools = prev[serverUrl] || []\<close> as \<^verbatim>\<open>serverTools.includes(toolName)\<close>
  finds it: an own array is truthy and is taken, \<^verbatim>\<open>undefined\<close> gives \<^verbatim>\<open>[]\<close>; an
  inherited value is truthy too and has no \<^verbatim>\<open>includes\<close>, so the call throws a
  \<^verbatim>\<open>TypeError\<close> and the update is not made.
\<close>

definition serverTools :: "node_state \<Rightarrow> string \<Rightarrow> exn + string list" where
  "serverTools s serverUrl =
     (case read_property (n_selectedTools s) serverUrl of
        Own ts \<Rightarrow> Inr ts
      | Undefined \<Rightarrow> Inr []
      | Inherited \<Rightarrow> Inl TypeError)"

definition toggleToolSelection :: "string \<Rightarrow> string \<Rightarrow> node_state \<Rightarrow> exn + node_state" where
  "toggleToolSelection serverUrl toolName s =
     (case serverTools s serverUrl of
        Inl e \<Rightarrow> Inl e
      | Inr ts \<Rightarrow>
          Inr (s\<lparr>n_selectedTools := (n_selectedTools s)(serverUrl \<mapsto>
                 (if toolName \<in> set ts
                  then filter (\<lambda>t. t \<noteq> toolName) ts
                  else ts @ [toolName]))\<rparr>))"


subsection \<open>LMConfigModal.tsx: the servers of the global scope\<close>

text \<open>
  The MCP part of the modal's state; a server carries its own selection. \<open>m_inflight\<close>
  lists the requests sent and not settled, as \<open>n_inflight\<close> does. The effect that
  copies the context's list into \<^verbatim>\<open>localMCPServers\<close> and fetches the catalog of each
  server, when the context changes, is not among the operations below.
\<close>

record modal_state =
  newServerUrl :: string
  m_availableTools :: "string \<rightharpoonup> Tool list"
  m_loadingTools :: "string \<rightharpoonup> bool"
  localMCPServers :: "MCPServer list"
  m_inflight :: "string list"

definition fresh_modal :: modal_state where
  "fresh_modal =
     \<lparr>newServerUrl = [], m_availableTools = Map.empty, m_loadingTools = Map.empty,
      localMCPServers = [], m_inflight = []\<rparr>"

definition fetchToolsForServer_modal :: "string \<Rightarrow> modal_state \<Rightarrow> modal_state" where
  "fetchToolsForServer_modal serverUrl s =
     s\<lparr>m_loadingTools := (m_loadingTools s)(serverUrl \<mapsto> True),
       m_inflight := m_inflight s @ [serverUrl]\<rparr>"

text \<open>Here a success stores the catalog only; the selections are not touched.\<close>

definition fetchSettled_modal :: "string \<Rightarrow> response \<Rightarrow> modal_state \<Rightarrow> modal_state" where
  "fetchSettled_modal serverUrl r s =
     (if serverUrl \<notin> set (m_inflight s) then s
      else
        (let s1 = (case r of
                     Tools tools \<Rightarrow>
                       s\<lparr>m_availableTools := (m_availableTools s)(serverUrl \<mapsto> tools)\<rparr>
                   | _ \<Rightarrow> s)
         in s1\<lparr>m_loadingTools := (m_loadingTools s1)(serverUrl \<mapsto> False),
               m_inflight := remove1 serverUrl (m_inflight s1)\<rparr>))"

definition addMCPServer :: "modal_state \<Rightarrow> modal_state" where
  "addMCPServer s =
     (if trim (newServerUrl s) \<noteq> [] \<and>
         \<not> list_ex (\<lambda>x. url x = trim (newServerUrl s)) (localMCPServers s)
      then
        (let serverUrl = trim (newServerUrl s);
             newServer = \<lparr>url = serverUrl, selectedTools = []\<rparr>
         in fetchToolsForServer_modal serverUrl
              (s\<lparr>localMCPServers := localMCPServers s @ [newServer], newServerUrl := []\<rparr>))
      else s)"

definition removeMCPServer :: "string \<Rightarrow> modal_state \<Rightarrow> modal_state" where
  "removeMCPServer serverUrl s =
     s\<lparr>localMCPServers := filter (\<lambda>x. url x \<noteq> serverUrl) (localMCPServers s),
       m_availableTools := (m_availableTools s)(serverUrl := None)\<rparr>"


text \<open>The selection of a server of the global scope: the field of its first entry.\<close>

definition selection_of :: "modal_state \<Rightarrow> string \<Rightarrow> string list option" where
  "selection_of s serverUrl =
     map_option selectedTools (find (\<lambda>x. url x = serverUrl) (localMCPServers s))"

subsection \<open>The operations of a scope\<close>

text \<open>
  \<open>addServer u\<close> of a scope is typing \<open>u\<close> into the input field
  (\<^verbatim>\<open>onChange={(e) => setNewMcpServer(e.target.value)}\<close>) and pressing Add;
  \<open>removeServer\<close> is the button of a listed server. \<open>Settle\<close> is a request of the
  scope settling, at any moment the network chooses.
\<close>

definition addServer :: "string \<Rightarrow> node_state \<Rightarrow> node_state" where
  "addServer u s = addMcpServer (s\<lparr>newMcpServer := u\<rparr>)"

definition addServer_modal :: "string \<Rightarrow> modal_state \<Rightarrow> modal_state" where
  "addServer_modal u s = addMCPServer (s\<lparr>newServerUrl := u\<rparr>)"

datatype op = AddServer string | RemoveServer string | Settle string response

fun apply_op :: "node_state \<Rightarrow> op \<Rightarrow> node_state" where
  "apply_op s (AddServer u) = addServer u s"
| "apply_op s (RemoveServer u) = removeMcpServer u s"
| "apply_op s (Settle u r) = fetchSettled u r s"

fun apply_op_modal :: "modal_state \<Rightarrow> op \<Rightarrow> modal_state" where
  "apply_op_modal s (AddServer u) = addServer_modal u s"
| "apply_op_modal s (RemoveServer u) = removeMCPServer u s"
| "apply_op_modal s (Settle u r) = fetchSettled_modal u r s"

text \<open>
  The reading of "added and not subsequently removed" for a sequence of operations:
  some \<open>AddServer\<close> whose input trims to the non-empty \<open>u\<close> is followed by no
  \<open>RemoveServer u\<close>.
\<close>

definition added_not_removed :: "op list \<Rightarrow> string \<Rightarrow> bool" where
  "added_not_removed ops u =
     (\<exists>pre inp post. ops = pre @ AddServer inp # post \<and> trim inp = u \<and> u \<noteq> [] \<and>
        RemoveServer u \<notin> set post)"

subsection \<open>Example states\<close>

text \<open>
  A global scope with the server \<^verbatim>\<open>http://a\<close> and the selection \<^verbatim>\<open>[search]\<close>, a canvas
  with the node \<^verbatim>\<open>n1\<close> that carries a snapshot of an earlier save, and the catalog
  of \<^verbatim>\<open>http://a\<close>.
\<close>

definition example_servers :: "MCPServer list" where
  "example_servers = [\<lparr>url = ''http://a'', selectedTools = [''search'']\<rparr>]"

definition example_node :: rf_node where
  "example_node =
     \<lparr>node_id = ''n1'',
      data = nodeDataToSave (fresh_node\<lparr>useGlobalMcpServers := True\<rparr>)
               [\<lparr>url = ''http://old'', selectedTools = []\<rparr>]\<rparr>"

definition example_app :: app where
  "example_app =
     \<lparr>ctx = \<lparr>globalLMConfig = None, p_mcpServers = example_servers, localStorage = NoItem\<rparr>,
      nodes = [example_node]\<rparr>"

definition example_draft :: node_state where
  "example_draft = fresh_node\<lparr>useGlobalMcpServers := True\<rparr>"

definition example_events :: "event list" where
  "example_events =
     [SetMCPServers [\<lparr>url = ''http://a'', selectedTools = [''fetch'']\<rparr>],
      SetGlobalLMConfig (Some \<lparr>provider = ''openai'', modelName = ''openai/gpt-4o''\<rparr>),
      SaveNode ''n2'' fresh_node]"

definition example_config :: GlobalConfig where
  "example_config =
     \<lparr>lmConfig = Some \<lparr>provider = ''openai'', modelName = ''openai/gpt-4o''\<rparr>,
      mcpServers = example_servers\<rparr>"


definition example_tools :: "Tool list" where
  "example_tools =
     [\<lparr>name = ''search'', description = ''web search''\<rparr>,
      \<lparr>name = ''fetch'', description = ''fetch a page''\<rparr>]"

text \<open>
  A run of a scope: \<^verbatim>\<open>" http://a "\<close> is added, \<^verbatim>\<open>http://b\<close> is added, the request
  for \<^verbatim>\<open>http://a\<close> settles with the catalog, \<^verbatim>\<open>http://b\<close> is removed, and Add is
  pressed on an empty field.
\<close>

definition example_ops :: "op list" where
  "example_ops =
     [AddServer '' http://a '', AddServer ''http://b'',
      Settle ''http://a'' (Tools example_tools), RemoveServer ''http://b'', AddServer []]"



section \<open>Saving a node: the snapshot of the global servers\<close>

lemma copy_MCPServers: "map (\<lambda>g. \<lparr>url = url g, selectedTools = selectedTools g\<rparr>) gs = gs"
  by (induction gs) simp_all

lemma handleSave_nodes:
  "fst (handleSave i g s nds) =
     map (\<lambda>node. if node_id node = i then node\<lparr>data := nodeDataToSave s g\<rparr> else node) nds"
  by (simp add: handleSave_def nodeDataToSave_def)

lemma find_handleSave:
  "find (\<lambda>node. node_id node = i) (fst (handleSave j g s nds)) =
     (if j = i
      then map_option (\<lambda>node. node\<lparr>data := nodeDataToSave s g\<rparr>)
             (find (\<lambda>node. node_id node = i) nds)
      else find (\<lambda>node. node_id node = i) nds)"
  by (induction nds) (auto simp: handleSave_nodes)

lemma saved_node:
  assumes "node \<in> set (fst (handleSave i g s nds))" and "node_id node = i"
  shows "data node = nodeDataToSave s g"
proof -
  from assms(1) have
    "node \<in> (\<lambda>n. if node_id n = i then n\<lparr>data := nodeDataToSave s g\<rparr> else n) ` set nds"
    unfolding handleSave_nodes set_map .
  then obtain n where
    n: "node = (if node_id n = i then n\<lparr>data := nodeDataToSave s g\<rparr> else n)"
    by (rule imageE)
  show ?thesis
  proof (cases "node_id n = i")
    case True
    with n show ?thesis by simp
  next
    case False
    with n assms(2) show ?thesis by simp
  qed
qed

lemma node_data_of_step_other:
  "\<not> saves i e \<Longrightarrow> node_data_of (step a e) i = node_data_of a i"
  by (cases e) (simp_all add: node_data_of_def find_handleSave)

lemma node_data_of_steps_other:
  "\<forall>e \<in> set evs. \<not> saves i e \<Longrightarrow> node_data_of (foldl step a evs) i = node_data_of a i"
  by (induction evs arbitrary: a) (simp_all add: node_data_of_step_other)

lemma node_data_of_save:
  "node_data_of a i \<noteq> None \<Longrightarrow>
   node_data_of (step a (SaveNode i s)) i = Some (nodeDataToSave s (p_mcpServers (ctx a)))"
  by (auto simp: node_data_of_def find_handleSave)

text \<open>
  C1. A node \<open>i\<close> of the canvas is saved with \<^verbatim>\<open>useGlobalMcpServers\<close> set; then any
  events follow that are calls of \<^verbatim>\<open>setMCPServers\<close> or \<^verbatim>\<open>setGlobalLMConfig\<close> or saves
  of other nodes. The data of the node is then still what the save wrote, and its
  snapshot is the global server list (url and selected tools of each entry) of the
  moment of the save. Whatever is computed from the node's data, the resolved tool
  list among it, is therefore unchanged by the later events.
\<close>

theorem snapshot_frozen:
  assumes "node_data_of a i \<noteq> None"
    and "useGlobalMcpServers s"
    and "\<forall>e \<in> set evs. \<not> saves i e"
  shows "\<exists>d. node_data_of (foldl step (step a (SaveNode i s)) evs) i = Some d \<and>
             d = nodeDataToSave s (p_mcpServers (ctx a)) \<and>
             globalMcpServersSnapshot d = p_mcpServers (ctx a)"
proof -
  have "node_data_of (foldl step (step a (SaveNode i s)) evs) i =
        node_data_of (step a (SaveNode i s)) i"
    using assms(3) by (rule node_data_of_steps_other)
  also have "\<dots> = Some (nodeDataToSave s (p_mcpServers (ctx a)))"
    using assms(1) by (rule node_data_of_save)
  finally show ?thesis
    using assms(2) by (simp add: nodeDataToSave_def copy_MCPServers)
qed

text \<open>
  The scenario of the specification: the node is saved while the global selection of
  \<^verbatim>\<open>http://a\<close> is \<^verbatim>\<open>[search]\<close>; then the selection is changed to \<^verbatim>\<open>[fetch]\<close>, a
  model is configured and another node is saved. The snapshot still says
  \<^verbatim>\<open>[search]\<close>, the live list says \<^verbatim>\<open>[fetch]\<close>.
\<close>

theorem snapshot_frozen_witness:
  "node_data_of example_app ''n1'' \<noteq> None \<and>
   useGlobalMcpServers example_draft \<and>
   list_all (\<lambda>e. \<not> saves ''n1'' e) example_events \<and>
   map_option globalMcpServersSnapshot
     (node_data_of
        (foldl step (step example_app (SaveNode ''n1'' example_draft)) example_events) ''n1'') =
     Some [\<lparr>url = ''http://a'', selectedTools = [''search'']\<rparr>] \<and>
   p_mcpServers
     (ctx (foldl step (step example_app (SaveNode ''n1'' example_draft)) example_events)) =
     [\<lparr>url = ''http://a'', selectedTools = [''fetch'']\<rparr>]"
proof -
  have h1: "node_data_of example_app ''n1'' \<noteq> None"
    by (simp add: node_data_of_def example_app_def example_node_def)
  have h2: "useGlobalMcpServers example_draft"
    by (simp add: example_draft_def)
  have h3': "list_all (\<lambda>e. \<not> saves ''n1'' e) example_events"
    by (simp add: example_events_def)
  then have h3: "\<forall>e \<in> set example_events. \<not> saves ''n1'' e"
    by (simp only: list_all_iff)
  have servers: "p_mcpServers (ctx example_app) =
      [\<lparr>url = ''http://a'', selectedTools = [''search'']\<rparr>]"
    by (simp add: example_app_def example_servers_def)
  have c: "map_option globalMcpServersSnapshot
     (node_data_of
        (foldl step (step example_app (SaveNode ''n1'' example_draft)) example_events) ''n1'') =
     Some [\<lparr>url = ''http://a'', selectedTools = [''search'']\<rparr>]"
    using snapshot_frozen [OF h1 h2 h3] by (elim exE conjE) (simp add: servers)
  have live: "p_mcpServers
     (ctx (foldl step (step example_app (SaveNode ''n1'' example_draft)) example_events)) =
     [\<lparr>url = ''http://a'', selectedTools = [''fetch'']\<rparr>]"
    by (simp add: example_events_def setMCPServers_def setGlobalLMConfig_def)
  show ?thesis
    using h1 h2 h3' c live by (intro conjI)
qed

text \<open>
  C2. In the node list that a save of the node \<open>i\<close> returns, a node with this id has
  a non-empty snapshot only if \<^verbatim>\<open>useGlobalMcpServers\<close> was set in the saving
  component, and has the empty snapshot whenever it was not set, whatever snapshot
  the node carried before.
\<close>

theorem snapshot_empty_unless_useGlobal:
  assumes "node \<in> set (fst (handleSave i g s nds))" and "node_id node = i"
  shows "(globalMcpServersSnapshot (data node) \<noteq> [] \<longrightarrow> useGlobalMcpServers s) \<and>
         (\<not> useGlobalMcpServers s \<longrightarrow> globalMcpServersSnapshot (data node) = [])"
  using saved_node [OF assms] by (simp add: nodeDataToSave_def)

text \<open>The example node carries a snapshot; a save without the flag clears it.\<close>

theorem snapshot_empty_unless_useGlobal_witness:
  "globalMcpServersSnapshot (data example_node) \<noteq> [] \<and>
   hd (fst (handleSave ''n1'' example_servers fresh_node [example_node]))
     \<in> set (fst (handleSave ''n1'' example_servers fresh_node [example_node])) \<and>
   node_id (hd (fst (handleSave ''n1'' example_servers fresh_node [example_node]))) = ''n1'' \<and>
   \<not> useGlobalMcpServers fresh_node \<and>
   globalMcpServersSnapshot
     (data (hd (fst (handleSave ''n1'' example_servers fresh_node [example_node])))) = []"
proof -
  have h0: "globalMcpServersSnapshot (data example_node) \<noteq> []"
    by (simp add: example_node_def nodeDataToSave_def)
  have h1: "hd (fst (handleSave ''n1'' example_servers fresh_node [example_node]))
     \<in> set (fst (handleSave ''n1'' example_servers fresh_node [example_node]))"
    by (simp add: handleSave_def)
  have h2: "node_id (hd (fst (handleSave ''n1'' example_servers fresh_node [example_node])))
     = ''n1''"
    by (simp add: handleSave_def example_node_def)
  have h3: "\<not> useGlobalMcpServers fresh_node"
    by (simp add: fresh_node_def)
  have c: "globalMcpServersSnapshot
     (data (hd (fst (handleSave ''n1'' example_servers fresh_node [example_node])))) = []"
    using snapshot_empty_unless_useGlobal [OF h1 h2] h3 by simp
  show ?thesis
    using h0 h1 h2 h3 c by (intro conjI)
qed

section \<open>The stored global configuration\<close>

lemma as_strings_JStr: "as_strings (map JStr xs) = Some xs"
  by (induction xs) simp_all

lemma as_MCPServer_json: "as_MCPServer (MCPServer_json s) = Some s"
  by (simp add: MCPServer_json_def as_strings_JStr)

lemma as_MCPServers_json: "as_MCPServers (map MCPServer_json ss) = Some ss"
  by (induction ss) (simp_all add: as_MCPServer_json)

lemma as_LMConfig_json: "as_LMConfig (lmConfig_json l) = Some l"
  by (cases l) (simp_all add: lmConfig_json_def LMConfig_json_def)

lemma as_GlobalConfig_json:
  "as_GlobalConfig (lmConfig_json l, mcpServers_json ss) = Some \<lparr>lmConfig = l, mcpServers = ss\<rparr>"
  by (simp add: as_GlobalConfig_def as_LMConfig_json mcpServers_json_def as_MCPServers_json)

lemma or_default_lmConfig_json: "or_default (Some (lmConfig_json l)) JNull = lmConfig_json l"
  by (cases l) (simp_all add: lmConfig_json_def LMConfig_json_def)

lemma or_default_mcpServers_json:
  "or_default (Some (mcpServers_json ss)) (JArr []) = mcpServers_json ss"
  by (simp add: mcpServers_json_def)

lemma load_object:
  "load (JSON (JObj kvs)) =
     (or_default (map_of kvs ''lmConfig'') JNull, or_default (map_of kvs ''mcpServers'') (JArr []))"
  by (simp add: load_def try_block_def)




lemma load_saved: "load (saveGlobalConfig l ss) = (lmConfig_json l, mcpServers_json ss)"
  unfolding saveGlobalConfig_def GlobalConfig_json_def load_object
  by (simp add: GlobalConfig_members_def or_default_lmConfig_json or_default_mcpServers_json
      del: or_default.simps)









text \<open>
  C9. What \<^verbatim>\<open>saveGlobalConfig\<close> stores for a language-model configuration and a server
  list, the load reads back: the two state variables hold the trees of the two values,
  which read as the configuration that was saved.
\<close>

theorem save_load_roundtrip:
  "load (saveGlobalConfig l ss) = (lmConfig_json l, mcpServers_json ss) \<and>
   as_GlobalConfig (load (saveGlobalConfig l ss)) = Some \<lparr>lmConfig = l, mcpServers = ss\<rparr>"
  by (simp add: load_saved as_GlobalConfig_json)

theorem save_load_roundtrip_witness:
  "as_GlobalConfig
     (load (saveGlobalConfig (Some \<lparr>provider = ''openai'', modelName = ''openai/gpt-4o''\<rparr>)
        example_servers)) =
     Some \<lparr>lmConfig = Some \<lparr>provider = ''openai'', modelName = ''openai/gpt-4o''\<rparr>,
           mcpServers = example_servers\<rparr>"
  using save_load_roundtrip
    [of "Some \<lparr>provider = ''openai'', modelName = ''openai/gpt-4o''\<rparr>" example_servers]
  by (rule conjunct2)

text \<open>
  C10. \<^verbatim>\<open>setGlobalLMConfig\<close> stores an object whose \<^verbatim>\<open>mcpServers\<close> member is the server
  list in memory, and leaves that list as it is; \<^verbatim>\<open>setMCPServers\<close> stores an object
  whose \<^verbatim>\<open>lmConfig\<close> member is the language-model configuration in memory, and leaves
  that configuration as it is. The other member is the argument of the setter.
\<close>

theorem setters_frame:
  "stored_member (localStorage (setGlobalLMConfig c st)) ''mcpServers'' =
     Some (mcpServers_json (p_mcpServers st)) \<and>
   stored_member (localStorage (setGlobalLMConfig c st)) ''lmConfig'' = Some (lmConfig_json c) \<and>
   p_mcpServers (setGlobalLMConfig c st) = p_mcpServers st \<and>
   stored_member (localStorage (setMCPServers ss st)) ''lmConfig'' =
     Some (lmConfig_json (globalLMConfig st)) \<and>
   stored_member (localStorage (setMCPServers ss st)) ''mcpServers'' = Some (mcpServers_json ss) \<and>
   globalLMConfig (setMCPServers ss st) = globalLMConfig st"
  by (simp add: setGlobalLMConfig_def setMCPServers_def saveGlobalConfig_def
      stored_member_def GlobalConfig_json_def GlobalConfig_members_def)


theorem setters_frame_witness:
  "stored_member (localStorage (setGlobalLMConfig (lmConfig example_config) (ctx example_app)))
     ''mcpServers'' = Some (mcpServers_json example_servers) \<and>
   stored_member (localStorage (setMCPServers [] (ctx example_app))) ''lmConfig'' = Some JNull"
proof -
  have m: "p_mcpServers (ctx example_app) = example_servers"
    and l: "lmConfig_json (globalLMConfig (ctx example_app)) = JNull"
    by (simp_all add: example_app_def lmConfig_json_def)
  from setters_frame [of "lmConfig example_config" "ctx example_app" "[]"] show ?thesis
    unfolding m l by simp
qed

section \<open>The servers of a scope\<close>

subsection \<open>The server list after each operation\<close>

lemma servers_addServer:
  "n_mcpServers (addServer inp s) =
     (if trim inp \<noteq> [] \<and> trim inp \<notin> set (n_mcpServers s)
      then n_mcpServers s @ [trim inp] else n_mcpServers s)"
  by (simp add: addServer_def addMcpServer_def fetchToolsForServer_def Let_def)

lemma servers_removeMcpServer:
  "n_mcpServers (removeMcpServer v s) = filter (\<lambda>y. y \<noteq> v) (n_mcpServers s)"
  by (simp add: removeMcpServer_def)

lemma servers_fetchSettled:
  "n_mcpServers (fetchSettled v r s) = n_mcpServers s"
  by (simp add: fetchSettled_def Let_def split: response.splits)

lemmas servers_simps = servers_addServer servers_removeMcpServer servers_fetchSettled

lemma listed_iff: "list_ex (\<lambda>x. url x = v) ss \<longleftrightarrow> v \<in> set (map url ss)"
  unfolding list_ex_iff by force

lemma urls_addServer_modal:
  "map url (localMCPServers (addServer_modal inp s)) =
     (if trim inp \<noteq> [] \<and> trim inp \<notin> set (map url (localMCPServers s))
      then map url (localMCPServers s) @ [trim inp] else map url (localMCPServers s))"
  by (simp add: addServer_modal_def addMCPServer_def fetchToolsForServer_modal_def Let_def
      listed_iff)

lemma urls_removeMCPServer:
  "map url (localMCPServers (removeMCPServer v s)) =
     filter (\<lambda>y. y \<noteq> v) (map url (localMCPServers s))"
  by (simp add: removeMCPServer_def filter_map comp_def)

lemma servers_fetchSettled_modal:
  "localMCPServers (fetchSettled_modal v r s) = localMCPServers s"
  by (simp add: fetchSettled_modal_def Let_def split: response.splits)

lemmas urls_simps = urls_addServer_modal urls_removeMCPServer servers_fetchSettled_modal

subsection \<open>Adding a server that is listed\<close>

lemma addServer_rejected:
  "trim v = [] \<or> trim v \<in> set (n_mcpServers t) \<Longrightarrow> addServer v t = t\<lparr>newMcpServer := v\<rparr>"
  by (auto simp: addServer_def addMcpServer_def)

lemma addServer_modal_rejected:
  "trim v = [] \<or> trim v \<in> set (map url (localMCPServers t)) \<Longrightarrow>
   addServer_modal v t = t\<lparr>newServerUrl := v\<rparr>"
  by (auto simp: addServer_modal_def addMCPServer_def listed_iff simp del: set_map)

lemma listed_after_addServer:
  "trim u = [] \<or> trim u \<in> set (n_mcpServers (addServer u s))"
  by (simp add: servers_addServer)

lemma listed_after_addServer_modal:
  "trim u = [] \<or> trim u \<in> set (map url (localMCPServers (addServer_modal u s)))"
  unfolding urls_addServer_modal by simp

text \<open>
  C3, as the code has it. An \<open>addServer\<close> whose input trims to the same string as
  the input of the \<open>addServer\<close> before it (the same input among them) changes
  nothing but the input field, which keeps the text that was typed: the server list,
  the catalogs, the selections, the loading flags and the requests in flight are those
  after the first call. The second call returns like any other; no error is raised.
  This holds in the node scope and in the global scope.
\<close>

theorem duplicate_add_ignored:
  assumes "trim u' = trim u"
  shows "addServer u' (addServer u s) = (addServer u s)\<lparr>newMcpServer := u'\<rparr> \<and>
         addServer_modal u' (addServer_modal u g) = (addServer_modal u g)\<lparr>newServerUrl := u'\<rparr>"
proof
  show "addServer u' (addServer u s) = (addServer u s)\<lparr>newMcpServer := u'\<rparr>"
    using listed_after_addServer [of u s] unfolding assms [symmetric]
    by (rule addServer_rejected)
  show "addServer_modal u' (addServer_modal u g) = (addServer_modal u g)\<lparr>newServerUrl := u'\<rparr>"
    using listed_after_addServer_modal [of u g] unfolding assms [symmetric]
    by (rule addServer_modal_rejected)
qed

theorem duplicate_add_ignored_witness:
  "trim '' http://a '' = trim ''http://a'' \<and>
   n_mcpServers (addServer ''http://a'' fresh_node) = [''http://a''] \<and>
   addServer '' http://a '' (addServer ''http://a'' fresh_node) =
     (addServer ''http://a'' fresh_node)\<lparr>newMcpServer := '' http://a ''\<rparr>"
proof -
  have h: "trim '' http://a '' = trim ''http://a''"
    by (simp add: trim_def isWhiteSpace_def)
  have e: "n_mcpServers (addServer ''http://a'' fresh_node) = [''http://a'']"
    by (simp add: servers_addServer fresh_node_def trim_def isWhiteSpace_def)
  from duplicate_add_ignored [OF h, of fresh_node] have c:
    "addServer '' http://a '' (addServer ''http://a'' fresh_node) =
     (addServer ''http://a'' fresh_node)\<lparr>newMcpServer := '' http://a ''\<rparr>"
    by (rule conjunct1)
  show ?thesis
    using h e c by (intro conjI)
qed

text \<open>
  Against C3 as stated: \<^verbatim>\<open>" http://a"\<close> is not the string \<^verbatim>\<open>"http://a"\<close> and is not
  in the server list, yet adding it after \<^verbatim>\<open>"http://a"\<close> is taken for a duplicate: the
  list keeps its one entry. The comparison is on the trimmed input.
\<close>

theorem duplicate_add_counterexample:
  "'' http://a'' \<notin> set (n_mcpServers (addServer ''http://a'' fresh_node)) \<and>
   n_mcpServers (addServer ''http://a'' fresh_node) = [''http://a''] \<and>
   n_mcpServers (addServer '' http://a'' (addServer ''http://a'' fresh_node)) = [''http://a'']"
  by (simp add: servers_addServer fresh_node_def trim_def isWhiteSpace_def)

subsection \<open>Sequences of operations\<close>

lemma added_not_removed_Nil: "\<not> added_not_removed [] u"
  by (simp add: added_not_removed_def)

lemma added_not_removed_snoc:
  "added_not_removed (ops @ [x]) u \<longleftrightarrow>
     (added_not_removed ops u \<and> x \<noteq> RemoveServer u) \<or>
     (\<exists>inp. x = AddServer inp \<and> trim inp = u \<and> u \<noteq> [])"
proof
  assume "added_not_removed (ops @ [x]) u"
  then obtain pre inp post where
    eq: "ops @ [x] = pre @ AddServer inp # post" and
    t: "trim inp = u" "u \<noteq> []" and nr: "RemoveServer u \<notin> set post"
    unfolding added_not_removed_def by blast
  show "(added_not_removed ops u \<and> x \<noteq> RemoveServer u) \<or>
        (\<exists>inp. x = AddServer inp \<and> trim inp = u \<and> u \<noteq> [])"
  proof (cases post rule: rev_cases)
    case Nil
    with eq have "x = AddServer inp" by simp
    with t show ?thesis by blast
  next
    case (snoc post' y)
    with eq have "ops @ [x] = (pre @ AddServer inp # post') @ [y]" by simp
    then have "ops = pre @ AddServer inp # post'" and "x = y" by simp_all
    moreover from nr snoc have "RemoveServer u \<notin> set post'" "y \<noteq> RemoveServer u" by auto
    ultimately show ?thesis using t unfolding added_not_removed_def by blast
  qed
next
  assume "(added_not_removed ops u \<and> x \<noteq> RemoveServer u) \<or>
          (\<exists>inp. x = AddServer inp \<and> trim inp = u \<and> u \<noteq> [])"
  then show "added_not_removed (ops @ [x]) u"
  proof
    assume a: "added_not_removed ops u \<and> x \<noteq> RemoveServer u"
    then obtain pre inp post where
      "ops = pre @ AddServer inp # post" "trim inp = u" "u \<noteq> []" "RemoveServer u \<notin> set post"
      unfolding added_not_removed_def by blast
    with a have "ops @ [x] = pre @ AddServer inp # (post @ [x]) \<and> trim inp = u \<and> u \<noteq> [] \<and>
      RemoveServer u \<notin> set (post @ [x])" by auto
    then show ?thesis unfolding added_not_removed_def by blast
  next
    assume "\<exists>inp. x = AddServer inp \<and> trim inp = u \<and> u \<noteq> []"
    then obtain inp where "x = AddServer inp" "trim inp = u" "u \<noteq> []" by blast
    then have "ops @ [x] = ops @ AddServer inp # [] \<and> trim inp = u \<and> u \<noteq> [] \<and>
      RemoveServer u \<notin> set []" by simp
    then show ?thesis unfolding added_not_removed_def by blast
  qed
qed

lemma servers_run:
  "n_mcpServers s = [] \<Longrightarrow>
   u \<in> set (n_mcpServers (foldl apply_op s ops)) \<longleftrightarrow> added_not_removed ops u"
proof (induction ops rule: rev_induct)
  case Nil
  then show ?case by (simp add: added_not_removed_Nil)
next
  case (snoc x ops)
  then show ?case
    by (cases x) (auto simp: servers_simps added_not_removed_snoc)
qed

lemma distinct_run:
  "distinct (n_mcpServers s) \<Longrightarrow> distinct (n_mcpServers (foldl apply_op s ops))"
proof (induction ops rule: rev_induct)
  case Nil
  then show ?case by simp
next
  case (snoc x ops)
  then show ?case
    by (cases x) (auto simp: servers_simps)
qed

lemma urls_run_modal:
  "localMCPServers g = [] \<Longrightarrow>
   u \<in> set (map url (localMCPServers (foldl apply_op_modal g ops))) \<longleftrightarrow>
     added_not_removed ops u"
proof (induction ops rule: rev_induct)
  case Nil
  then show ?case by (simp add: added_not_removed_Nil)
next
  case (snoc x ops)
  then show ?case
    by (cases x) (auto simp: urls_simps added_not_removed_snoc simp del: set_map)
qed

lemma distinct_run_modal:
  "distinct (map url (localMCPServers g)) \<Longrightarrow>
   distinct (map url (localMCPServers (foldl apply_op_modal g ops)))"
proof (induction ops rule: rev_induct)
  case Nil
  then show ?case by simp
next
  case (snoc x ops)
  then show ?case
    by (cases x) (auto simp: urls_simps simp del: set_map)
qed

lemma filter_absent: "v \<notin> set xs \<Longrightarrow> filter (\<lambda>x. x \<noteq> v) xs = xs"
  by (induction xs) auto

lemma filter_url_absent: "v \<notin> set (map url ss) \<Longrightarrow> filter (\<lambda>x. url x \<noteq> v) ss = ss"
  by (induction ss) auto

lemma removeMcpServer_absent:
  "v \<notin> set (n_mcpServers t) \<Longrightarrow> n_availableTools t v = None \<Longrightarrow>
   n_selectedTools t v = None \<Longrightarrow> removeMcpServer v t = t"
  by (simp add: removeMcpServer_def fun_upd_idem filter_absent)

lemma removeMCPServer_absent:
  "v \<notin> set (map url (localMCPServers h)) \<Longrightarrow> m_availableTools h v = None \<Longrightarrow>
   removeMCPServer v h = h"
  by (simp add: removeMCPServer_def fun_upd_idem filter_url_absent del: set_map)

text \<open>
  C4, as the code has it. Start from a scope without servers and run any sequence of
  \<open>addServer\<close> and \<open>removeServer\<close> calls, with requests settling in between. The
  server list then holds exactly the non-empty strings \<open>u\<close> to which the input of
  some \<open>addServer\<close> trims and that no later \<open>removeServer u\<close> names, each once.
  In any state \<open>t\<close> of a node and \<open>h\<close> of the global scope, after
  \<open>removeServer v\<close> the url \<open>v\<close> is in neither the list, nor the catalogs, nor
  the selections; when \<open>v\<close> was not listed the list is as before, and when it had
  no catalog and no selection either, the whole state is as before.
\<close>

theorem servers_added_not_removed:
  assumes "n_mcpServers s = []" and "localMCPServers g = []"
  shows "(u \<in> set (n_mcpServers (foldl apply_op s ops)) \<longleftrightarrow> added_not_removed ops u) \<and>
         distinct (n_mcpServers (foldl apply_op s ops)) \<and>
         (u \<in> set (map url (localMCPServers (foldl apply_op_modal g ops))) \<longleftrightarrow>
            added_not_removed ops u) \<and>
         distinct (map url (localMCPServers (foldl apply_op_modal g ops))) \<and>
         v \<notin> set (n_mcpServers (removeMcpServer v t)) \<and>
         n_availableTools (removeMcpServer v t) v = None \<and>
         n_selectedTools (removeMcpServer v t) v = None \<and>
         (v \<notin> set (n_mcpServers t) \<longrightarrow> n_mcpServers (removeMcpServer v t) = n_mcpServers t) \<and>
         (v \<notin> set (n_mcpServers t) \<and> n_availableTools t v = None \<and> n_selectedTools t v = None
            \<longrightarrow> removeMcpServer v t = t) \<and>
         v \<notin> set (map url (localMCPServers (removeMCPServer v h))) \<and>
         selection_of (removeMCPServer v h) v = None \<and>
         m_availableTools (removeMCPServer v h) v = None \<and>
         (v \<notin> set (map url (localMCPServers h)) \<longrightarrow>
            localMCPServers (removeMCPServer v h) = localMCPServers h) \<and>
         (v \<notin> set (map url (localMCPServers h)) \<and> m_availableTools h v = None
            \<longrightarrow> removeMCPServer v h = h)"
proof (intro conjI impI)
  show "u \<in> set (n_mcpServers (foldl apply_op s ops)) \<longleftrightarrow> added_not_removed ops u"
    using assms(1) by (rule servers_run)
  show "distinct (n_mcpServers (foldl apply_op s ops))"
    using assms(1) by (simp add: distinct_run)
  show "u \<in> set (map url (localMCPServers (foldl apply_op_modal g ops))) \<longleftrightarrow>
          added_not_removed ops u"
    using assms(2) by (rule urls_run_modal)
  show "distinct (map url (localMCPServers (foldl apply_op_modal g ops)))"
    using assms(2) by (simp add: distinct_run_modal)
  show "v \<notin> set (n_mcpServers (removeMcpServer v t))"
    by (simp add: servers_removeMcpServer)
  show "n_availableTools (removeMcpServer v t) v = None"
    and "n_selectedTools (removeMcpServer v t) v = None"
    by (simp_all add: removeMcpServer_def)
  show "n_mcpServers (removeMcpServer v t) = n_mcpServers t" if "v \<notin> set (n_mcpServers t)"
    using that by (simp add: servers_removeMcpServer filter_absent)
  show "removeMcpServer v t = t"
    if "v \<notin> set (n_mcpServers t) \<and> n_availableTools t v = None \<and> n_selectedTools t v = None"
    using that by (simp add: removeMcpServer_absent)
  show absent: "v \<notin> set (map url (localMCPServers (removeMCPServer v h)))"
    unfolding urls_removeMCPServer by simp
  show "selection_of (removeMCPServer v h) v = None"
    using absent by (auto simp: selection_of_def find_None_iff)
  show "m_availableTools (removeMCPServer v h) v = None"
    by (simp add: removeMCPServer_def)
  show "localMCPServers (removeMCPServer v h) = localMCPServers h"
    if "v \<notin> set (map url (localMCPServers h))"
    using that by (simp add: removeMCPServer_def filter_url_absent del: set_map)
  show "removeMCPServer v h = h"
    if "v \<notin> set (map url (localMCPServers h)) \<and> m_availableTools h v = None"
    using that by (simp add: removeMCPServer_absent)
qed

theorem servers_added_not_removed_witness:
  "n_mcpServers fresh_node = [] \<and> localMCPServers fresh_modal = [] \<and>
   n_mcpServers (foldl apply_op fresh_node example_ops) = [''http://a''] \<and>
   added_not_removed example_ops ''http://a'' \<and>
   \<not> added_not_removed example_ops ''http://b'' \<and>
   ''http://b'' \<notin> set (n_mcpServers fresh_node) \<and>
   n_availableTools fresh_node ''http://b'' = None \<and>
   n_selectedTools fresh_node ''http://b'' = None \<and>
   removeMcpServer ''http://b'' fresh_node = fresh_node \<and>
   ''http://b'' \<notin> set (map url (localMCPServers fresh_modal)) \<and>
   m_availableTools fresh_modal ''http://b'' = None \<and>
   removeMCPServer ''http://b'' fresh_modal = fresh_modal"
proof -
  have h1: "n_mcpServers fresh_node = []" and h2: "localMCPServers fresh_modal = []"
    by (simp_all add: fresh_node_def fresh_modal_def)
  have e: "n_mcpServers (foldl apply_op fresh_node example_ops) = [''http://a'']"
    by (simp add: example_ops_def servers_simps fresh_node_def trim_def isWhiteSpace_def)
  have a1: "''http://b'' \<notin> set (n_mcpServers fresh_node)"
    and a2: "n_availableTools fresh_node ''http://b'' = None"
    and a3: "n_selectedTools fresh_node ''http://b'' = None"
    and a4: "''http://b'' \<notin> set (map url (localMCPServers fresh_modal))"
    and a5: "m_availableTools fresh_modal ''http://b'' = None"
    by (simp_all add: fresh_node_def fresh_modal_def)
  note t = servers_added_not_removed [OF h1 h2, where ops = example_ops and v = "''http://b''"
      and t = fresh_node and h = fresh_modal]
  from t [where u = "''http://a''"] have
    "(''http://a'' \<in> set (n_mcpServers (foldl apply_op fresh_node example_ops))) =
       added_not_removed example_ops ''http://a''"
    by (rule conjunct1)
  then have c1: "added_not_removed example_ops ''http://a''"
    unfolding e by simp
  from t [where u = "''http://b''"] have
    "(''http://b'' \<in> set (n_mcpServers (foldl apply_op fresh_node example_ops))) =
       added_not_removed example_ops ''http://b''"
    by (rule conjunct1)
  then have c2: "\<not> added_not_removed example_ops ''http://b''"
    unfolding e by simp
  from t [where u = "''http://a''"] a1 a2 a3 have
    c3: "removeMcpServer ''http://b'' fresh_node = fresh_node"
    by simp
  from t [where u = "''http://a''"] a4 a5 have
    c4: "removeMCPServer ''http://b'' fresh_modal = fresh_modal"
    by simp
  show ?thesis
    using h1 h2 e c1 c2 a1 a2 a3 c3 a4 a5 c4 by (intro conjI)
qed

text \<open>
  Against C4 as stated: after \<open>addServer\<close> of \<^verbatim>\<open>" http://a"\<close> the list does not hold
  the url that was added but its trimmed form, and after \<open>addServer\<close> of the empty
  string the list is empty although that url was added and never removed.
\<close>

theorem servers_added_counterexample:
  "'' http://a'' \<notin> set (n_mcpServers (foldl apply_op fresh_node [AddServer '' http://a''])) \<and>
   n_mcpServers (foldl apply_op fresh_node [AddServer '' http://a'']) = [''http://a''] \<and>
   n_mcpServers (foldl apply_op fresh_node [AddServer []]) = []"
  by (simp add: servers_addServer fresh_node_def trim_def isWhiteSpace_def)

section \<open>Fetching catalogs and selecting tools\<close>

text \<open>
  C5, as the code has it. \<^verbatim>\<open>fetchToolsForServer\<close> sends a request on every call,
  whatever the loading flag of the url says: one more request for the url is in
  flight afterwards, and the flag is set. Nothing is coalesced, in the node scope and
  in the global scope alike.
\<close>

theorem fetch_always_requests:
  "count_list (n_inflight (fetchToolsForServer v s)) v = Suc (count_list (n_inflight s) v) \<and>
   n_loadingTools (fetchToolsForServer v s) v = Some True \<and>
   count_list (m_inflight (fetchToolsForServer_modal v g)) v = Suc (count_list (m_inflight g) v) \<and>
   m_loadingTools (fetchToolsForServer_modal v g) v = Some True"
  by (simp add: fetchToolsForServer_def fetchToolsForServer_modal_def)

theorem fetch_always_requests_witness:
  "n_loadingTools (fetchToolsForServer ''http://a'' fresh_node) ''http://a'' = Some True \<and>
   count_list
     (n_inflight (fetchToolsForServer ''http://a'' (fetchToolsForServer ''http://a'' fresh_node)))
     ''http://a'' = 2"
proof -
  have i: "count_list (n_inflight fresh_node) ''http://a'' = 0"
    by (simp add: fresh_node_def)
  from fetch_always_requests [of "''http://a''" fresh_node] have
    l: "n_loadingTools (fetchToolsForServer ''http://a'' fresh_node) ''http://a'' = Some True"
    and c: "count_list (n_inflight (fetchToolsForServer ''http://a'' fresh_node)) ''http://a'' =
      Suc (count_list (n_inflight fresh_node) ''http://a'')"
    by simp_all
  from fetch_always_requests [of "''http://a''" "fetchToolsForServer ''http://a'' fresh_node"]
  have "count_list
     (n_inflight (fetchToolsForServer ''http://a'' (fetchToolsForServer ''http://a'' fresh_node)))
     ''http://a'' =
     Suc (count_list (n_inflight (fetchToolsForServer ''http://a'' fresh_node)) ''http://a'')"
    by (rule conjunct1)
  then have "count_list
     (n_inflight (fetchToolsForServer ''http://a'' (fetchToolsForServer ''http://a'' fresh_node)))
     ''http://a'' = 2"
    unfolding c i by simp
  with l show ?thesis by (intro conjI)
qed

text \<open>
  Against C5 as stated: a server is added, removed and added again before its first
  request settles. At the second \<open>addServer\<close> the url is still loading, and
  afterwards two requests for it are in flight.
\<close>

theorem fetch_coalesced_counterexample:
  "n_loadingTools
     (foldl apply_op fresh_node [AddServer ''http://a'', RemoveServer ''http://a''])
     ''http://a'' = Some True \<and>
   n_inflight
     (foldl apply_op fresh_node
        [AddServer ''http://a'', RemoveServer ''http://a'', AddServer ''http://a'']) =
     [''http://a'', ''http://a'']"
  by (simp add: addServer_def addMcpServer_def removeMcpServer_def fetchToolsForServer_def
      fresh_node_def trim_def isWhiteSpace_def Let_def)

subsection \<open>The selection after a successful fetch\<close>

lemma find_appended:
  "v \<notin> set (map url ss) \<Longrightarrow>
   find (\<lambda>x. url x = v) (ss @ [\<lparr>url = v, selectedTools = []\<rparr>]) =
     Some \<lparr>url = v, selectedTools = []\<rparr>"
  by (induction ss) auto

text \<open>
  C6. In the node scope, a request for \<open>v\<close> that settles with a catalog sets the
  selection of \<open>v\<close> to the names of all tools of the catalog; so it does for a
  server just added. In the global scope a settled request leaves the servers and
  their selections as they are, and a server just added, that had no selection
  before, has the empty selection after its catalog has arrived.
\<close>

theorem selection_seeding:
  "(v \<in> set (n_inflight s) \<longrightarrow>
      n_selectedTools (fetchSettled v (Tools ts) s) v = Some (map name ts)) \<and>
   (trim u \<noteq> [] \<and> trim u \<notin> set (n_mcpServers s) \<longrightarrow>
      n_selectedTools (fetchSettled (trim u) (Tools ts) (addServer u s)) (trim u) =
        Some (map name ts)) \<and>
   localMCPServers (fetchSettled_modal v r g) = localMCPServers g \<and>
   (trim u \<noteq> [] \<and> selection_of g (trim u) = None \<longrightarrow>
      selection_of (fetchSettled_modal (trim u) (Tools ts) (addServer_modal u g)) (trim u) =
        Some [])"
proof (intro conjI impI)
  show "n_selectedTools (fetchSettled v (Tools ts) s) v = Some (map name ts)"
    if "v \<in> set (n_inflight s)"
    using that by (simp add: fetchSettled_def)
  show "n_selectedTools (fetchSettled (trim u) (Tools ts) (addServer u s)) (trim u) =
        Some (map name ts)"
    if "trim u \<noteq> [] \<and> trim u \<notin> set (n_mcpServers s)"
    using that
    by (simp add: fetchSettled_def addServer_def addMcpServer_def fetchToolsForServer_def
        Let_def)
  show "localMCPServers (fetchSettled_modal v r g) = localMCPServers g"
    by (rule servers_fetchSettled_modal)
  show "selection_of (fetchSettled_modal (trim u) (Tools ts) (addServer_modal u g)) (trim u) =
        Some []"
    if a: "trim u \<noteq> [] \<and> selection_of g (trim u) = None"
  proof -
    from a have absent: "trim u \<notin> set (map url (localMCPServers g))"
      by (auto simp: selection_of_def find_None_iff)
    with a have "localMCPServers (addServer_modal u g) =
        localMCPServers g @ [\<lparr>url = trim u, selectedTools = []\<rparr>]"
      by (simp add: addServer_modal_def addMCPServer_def fetchToolsForServer_modal_def
          listed_iff Let_def del: set_map)
    with absent show ?thesis
      by (simp add: selection_of_def servers_fetchSettled_modal find_appended del: set_map)
  qed
qed

theorem selection_seeding_witness:
  "trim ''http://a'' \<noteq> [] \<and> trim ''http://a'' \<notin> set (n_mcpServers fresh_node) \<and>
   selection_of fresh_modal (trim ''http://a'') = None \<and>
   ''http://a'' \<in> set (n_inflight (addServer ''http://a'' fresh_node)) \<and>
   n_selectedTools
     (fetchSettled ''http://a'' (Tools example_tools) (addServer ''http://a'' fresh_node))
     ''http://a'' = Some [''search'', ''fetch''] \<and>
   selection_of
     (fetchSettled_modal ''http://a'' (Tools example_tools)
        (addServer_modal ''http://a'' fresh_modal))
     ''http://a'' = Some []"
proof -
  have tr: "trim ''http://a'' = ''http://a''"
    by (simp add: trim_def isWhiteSpace_def)
  have h1: "trim ''http://a'' \<noteq> []"
    unfolding tr by simp
  have h2: "trim ''http://a'' \<notin> set (n_mcpServers fresh_node)"
    by (simp add: fresh_node_def)
  have h3: "selection_of fresh_modal (trim ''http://a'') = None"
    by (simp add: selection_of_def fresh_modal_def)
  have h4: "''http://a'' \<in> set (n_inflight (addServer ''http://a'' fresh_node))"
    by (simp add: addServer_def addMcpServer_def fetchToolsForServer_def fresh_node_def
        trim_def isWhiteSpace_def Let_def)
  have names: "map name example_tools = [''search'', ''fetch'']"
    by (simp add: example_tools_def)
  from selection_seeding [where v = "''http://a''" and s = "addServer ''http://a'' fresh_node"
      and ts = example_tools] h4
  have c0: "n_selectedTools
     (fetchSettled ''http://a'' (Tools example_tools) (addServer ''http://a'' fresh_node))
     ''http://a'' = Some (map name example_tools)"
    by simp
  note t = selection_seeding [where u = "''http://a''" and s = fresh_node and g = fresh_modal
      and ts = example_tools]
  from t h1 h2 have c1: "n_selectedTools
     (fetchSettled (trim ''http://a'') (Tools example_tools) (addServer ''http://a'' fresh_node))
     (trim ''http://a'') = Some (map name example_tools)"
    by simp
  from t h1 h3 have c2: "selection_of
     (fetchSettled_modal (trim ''http://a'') (Tools example_tools)
        (addServer_modal ''http://a'' fresh_modal))
     (trim ''http://a'') = Some []"
    by simp
  show ?thesis
    using h1 h2 h3 h4 c0 c2 unfolding names unfolding tr by (intro conjI)
qed

subsection \<open>Toggling a tool\<close>




text \<open>
  The remaining case of the node scope: the url is a property name of
  \<^verbatim>\<open>Object.prototype\<close> and has no selection of its own. The handler then throws.
\<close>

lemma toggleToolSelection_inherited:
  "v \<in> set Object_prototype \<Longrightarrow> n_selectedTools s v = None \<Longrightarrow>
   toggleToolSelection v toolName s = Inl TypeError"
  by (simp add: toggleToolSelection_def serverTools_def read_property_def)




end
